theory Spec2Isabelle
  imports
    Complex_Main
    "HOL-Library.Multiset"
    "HOL-Library.Log_Nat"
    "HOL-Library.Product_Lexorder"
    "HOL-Library.List_Lexorder"
    "HOL-Library.Char_ord"
begin

section \<open>Numbers\<close>

text \<open>
  A Python float is an IEEE 754 binary64 number: a significand of 53 bits and a binary
  exponent, down to the subnormal step \<open>2 ^ - 1074\<close>.  A finite float is modelled by the real
  number it denotes; an optional number (\<open>None\<close>, or a NaN cell of a pandas frame) is
  \<open>real option\<close>.  Every arithmetic operation yields the exact result rounded to the nearest
  binary64 number, a tie going to the even significand: this is \<open>fl\<close>.
\<close>

definition round_half_even :: "real \<Rightarrow> int" where
  "round_half_even x =
     (let f = \<lfloor>x\<rfloor>; d = x - of_int f
      in if d < 1 / 2 then f
         else if 1 / 2 < d then f + 1
         else if even f then f else f + 1)"

definition pow2 :: "int \<Rightarrow> real" where
  "pow2 e = (if 0 \<le> e then 2 ^ nat e else 1 / 2 ^ nat (- e))"

text \<open>The exponent \<open>e\<close> with \<open>2 ^ e \<le> \<bar>x\<bar> < 2 ^ (e + 1)\<close>, for \<open>x \<noteq> 0\<close>.\<close>

definition binary_exponent :: "real \<Rightarrow> int" where
  "binary_exponent x =
     (let a = \<bar>x\<bar>
      in if 1 \<le> a then bitlen \<lfloor>a\<rfloor> - 1 else - bitlen (\<lceil>1 / a\<rceil> - 1))"

definition fl :: "real \<Rightarrow> real" where
  "fl x =
     (if x = 0 then 0
      else
        let q = max (binary_exponent x) (- 1022) - 52
        in of_int (round_half_even (x / pow2 q)) * pow2 q)"

text \<open>
  Arithmetic of Python floats.  The results are kept as reals, so these operations describe
  the arithmetic as long as a result stays in the finite range of binary64, below
  \<open>2 ^ 1024\<close> in magnitude; beyond it a Python float is an infinity.
\<close>

definition fadd :: "real \<Rightarrow> real \<Rightarrow> real" where
  "fadd a b = fl (a + b)"

definition fsub :: "real \<Rightarrow> real \<Rightarrow> real" where
  "fsub a b = fl (a - b)"

definition fmul :: "real \<Rightarrow> real \<Rightarrow> real" where
  "fmul a b = fl (a * b)"

definition fdiv :: "real \<Rightarrow> real \<Rightarrow> real" where
  "fdiv a b = fl (a / b)"

text \<open>The finite range: magnitudes below \<open>2 ^ 1024\<close>, that is, exponents up to 1023.\<close>

definition binary64_finite :: "real \<Rightarrow> bool" where
  "binary64_finite x = (x = 0 \<or> binary_exponent x \<le> 1023)"

text \<open>
  The built-in \<open>round(x, n)\<close> of a Python float: the exact value of \<open>x\<close> is rounded to \<open>n\<close>
  decimal places, a tie going to the even neighbour, and the float nearest to that decimal
  number is returned.
\<close>

definition py_round :: "real \<Rightarrow> nat \<Rightarrow> real" where
  "py_round x ndigits = fl (of_int (round_half_even (x * 10 ^ ndigits)) / 10 ^ ndigits)"

text \<open>
  \<open>round(x, n)\<close> of a \<open>numpy.float64\<close> is NumPy's rounding: multiply by \<open>10 ** n\<close>, round to
  the nearest integer (ties to even), divide by \<open>10 ** n\<close>, each step in binary64.
\<close>

definition numpy_round :: "real \<Rightarrow> nat \<Rightarrow> real" where
  "numpy_round x ndigits =
     fdiv (of_int (round_half_even (fmul x (10 ^ ndigits)))) (10 ^ ndigits)"

text \<open>
  Truthiness of an optional number, as in \<open>if revenue and operating_income\<close>: \<open>None\<close> is
  false, and so is the number zero.
\<close>

fun truthy :: "real option \<Rightarrow> bool" where
  "truthy None = False"
| "truthy (Some x) = (x \<noteq> 0)"

text \<open>
  Arithmetic on \<open>numpy.float64\<close> does not raise: a zero divisor or an overflow yields an
  infinity or NaN.  Values read from a frame are \<open>numpy.float64\<close>, so the deviations computed
  from them live in this type.
\<close>

datatype npfloat = Finite real | PosInf | NegInf | NaN

definition to_np :: "real \<Rightarrow> npfloat" where
  "to_np x =
     (let y = fl x
      in if binary64_finite y then Finite y
         else if 0 < y then PosInf
         else NegInf)"

definition np_sub :: "real \<Rightarrow> real \<Rightarrow> npfloat" where
  "np_sub a b = to_np (a - b)"

fun np_div :: "npfloat \<Rightarrow> real \<Rightarrow> npfloat" where
  "np_div (Finite a) b =
     (if b \<noteq> 0 then to_np (a / b)
      else if 0 < a then PosInf
      else if a < 0 then NegInf
      else NaN)"
| "np_div PosInf b = (if b < 0 then NegInf else PosInf)"
| "np_div NegInf b = (if b < 0 then PosInf else NegInf)"
| "np_div NaN b = NaN"

fun np_times :: "npfloat \<Rightarrow> real \<Rightarrow> npfloat" where
  "np_times (Finite x) c = to_np (x * c)"
| "np_times PosInf c = (if 0 < c then PosInf else if c < 0 then NegInf else NaN)"
| "np_times NegInf c = (if 0 < c then NegInf else if c < 0 then PosInf else NaN)"
| "np_times NaN c = NaN"

fun np_rint :: "npfloat \<Rightarrow> npfloat" where
  "np_rint (Finite x) = Finite (of_int (round_half_even x))"
| "np_rint v = v"

fun np_truthy :: "npfloat \<Rightarrow> bool" where
  "np_truthy (Finite x) = (x \<noteq> 0)"
| "np_truthy v = True"

definition np_round :: "npfloat \<Rightarrow> nat \<Rightarrow> npfloat" where
  "np_round v n = np_div (np_rint (np_times v (10 ^ n))) (10 ^ n)"

section \<open>Data model\<close>

text \<open>A quarterly fundamental record, as built by \<open>get_fundamental_data\<close>.\<close>

record fundamental =
  quarter :: string
  year :: int
  revenue :: "real option"
  operating_income :: "real option"
  net_income :: "real option"
  total_assets :: "real option"
  total_debt :: "real option"
  shareholders_equity :: "real option"
  cash_and_equivalents :: "real option"
  ebit_margin :: "real option"
  roe :: "real option"
  debt_to_equity :: "real option"

text \<open>The dictionary returned by \<open>analyze_ebit_margin_trend\<close>.\<close>

record ebit_analysis =
  avg_margin :: "real option"

text \<open>The dictionary returned by \<open>analyze_technical_indicators\<close>.\<close>

record technical_analysis =
  ma_20 :: "real option"
  ma_50 :: "real option"
  ma_200 :: "real option"
  price_vs_ma20 :: "npfloat option"
  price_vs_ma50 :: "npfloat option"
  price_vs_ma200 :: "npfloat option"
  ma50_rising :: bool

section \<open>Ranking score\<close>

text \<open>
  \<open>calculate_ranking_score\<close>: the score starts at the integer 0 and only integers are added,
  so \<open>round(score, 1)\<close> returns the integer itself.
\<close>

definition calculate_ranking_score ::
    "real option \<Rightarrow> ebit_analysis \<Rightarrow> technical_analysis \<Rightarrow> int" where
  "calculate_ranking_score revenue_growth ebit_an technical_an =
     (let score0 = 0;
          score1 =
            (case revenue_growth of
               None \<Rightarrow> score0
             | Some g \<Rightarrow>
                 if g \<ge> 10 then score0 + 40
                 else if g \<ge> 5 then score0 + 30
                 else if g \<ge> 0 then score0 + 20
                 else score0 + 0);
          score2 =
            (case avg_margin ebit_an of
               None \<Rightarrow> score1
             | Some m \<Rightarrow>
                 if m \<ge> 25 then score1 + 40
                 else if m \<ge> 20 then score1 + 35
                 else if m \<ge> 15 then score1 + 30
                 else if m \<ge> 10 then score1 + 20
                 else if m \<ge> 5 then score1 + 10
                 else score1 + 0);
          score3 = (if ma50_rising technical_an then score2 + 20 else score2)
      in score3)"

text \<open>The three components as the specification tabulates them.\<close>

definition revenue_growth_points :: "real option \<Rightarrow> int" where
  "revenue_growth_points g =
     (case g of
        None \<Rightarrow> 0
      | Some x \<Rightarrow>
          if 10 \<le> x then 40
          else if 5 \<le> x \<and> x < 10 then 30
          else if 0 \<le> x \<and> x < 5 then 20
          else 0)"

definition ebit_margin_points :: "real option \<Rightarrow> int" where
  "ebit_margin_points m =
     (case m of
        None \<Rightarrow> 0
      | Some x \<Rightarrow>
          if 25 \<le> x then 40
          else if 20 \<le> x \<and> x < 25 then 35
          else if 15 \<le> x \<and> x < 20 then 30
          else if 10 \<le> x \<and> x < 15 then 20
          else if 5 \<le> x \<and> x < 10 then 10
          else 0)"

definition ma50_points :: "bool \<Rightarrow> int" where
  "ma50_points rising = (if rising then 20 else 0)"

section \<open>Recommendation\<close>

text \<open>
  The \<open>if\<close>/\<open>elif\<close> chain of \<open>analyze_stock\<close> that turns a score into a label.  It is
  written for any number, as the Python comparison is.
\<close>

definition recommendation_of :: "real \<Rightarrow> string" where
  "recommendation_of ranking_score =
     (if ranking_score \<ge> 80 then ''STRONG BUY''
      else if ranking_score \<ge> 60 then ''BUY''
      else if ranking_score \<ge> 40 then ''HOLD''
      else ''SELL'')"

section \<open>Revenue growth and EBIT margin\<close>

text \<open>
  \<open>sorted(xs, key=f, reverse=True)\<close>: the list is reversed, sorted stably in ascending order
  of the key, and reversed again, so records with equal keys keep their input order.
\<close>

definition sorted_reverse :: "('a \<Rightarrow> 'k::linorder) \<Rightarrow> 'a list \<Rightarrow> 'a list" where
  "sorted_reverse key xs = rev (sort_key key (rev xs))"

text \<open>
  \<open>calculate_revenue_growth\<close>.  The sort key \<open>lambda x: (x['year'], x['quarter'])\<close> is a
  Python tuple of an integer and a string such as \<open>Q3\<close>, compared lexicographically.  The
  growth is computed in float arithmetic, one rounding per operation.  Inside the \<open>try\<close>
  block both index reads are in range and the divisor is positive, so its \<open>except\<close> branch
  has nothing to catch.
\<close>

definition by_year_quarter :: "fundamental \<Rightarrow> int \<times> string" where
  "by_year_quarter x = (year x, quarter x)"

definition calculate_revenue_growth :: "fundamental list \<Rightarrow> real option" where
  "calculate_revenue_growth fundamental_data =
     (if length fundamental_data < 2 then None
      else
        let sorted_data = sorted_reverse by_year_quarter fundamental_data;
            revenues = List.map_filter revenue sorted_data
        in if length revenues < 2 then None
           else
             let current_quarter = revenues ! 0;
                 previous_quarter = revenues ! 1
             in if previous_quarter \<le> 0 then None
                else
                  let qoq_growth =
                        fmul (fdiv (fsub current_quarter previous_quarter) previous_quarter) 100
                  in Some (py_round qoq_growth 2))"


text \<open>
  \<open>analyze_ebit_margin_trend\<close>: \<open>np.mean\<close> of the margins that are present, the sum divided
  by the count.  NumPy adds fewer than eight numbers from left to right, which covers the
  four quarters the collector supplies; the mean is a \<open>numpy.float64\<close>.
\<close>

definition np_mean :: "real list \<Rightarrow> real" where
  "np_mean xs = fdiv (foldl fadd 0 xs) (real (length xs))"

definition analyze_ebit_margin_trend :: "fundamental list \<Rightarrow> ebit_analysis" where
  "analyze_ebit_margin_trend fundamental_data =
     (if fundamental_data = [] then \<lparr>avg_margin = None\<rparr>
      else
        let margins = List.map_filter ebit_margin fundamental_data
        in if margins = [] then \<lparr>avg_margin = None\<rparr>
           else
             let avg = np_mean margins
             in \<lparr>avg_margin = Some (numpy_round avg 2)\<rparr>)"

section \<open>Building a fundamental record\<close>

text \<open>
  The body of the loop of \<open>get_fundamental_data\<close> once the seven line items have been
  extracted: the three ratios are guarded by the truthiness of their operands.
\<close>

definition fundamental_record ::
    "string \<Rightarrow> int \<Rightarrow> real option \<Rightarrow> real option \<Rightarrow> real option \<Rightarrow> real option \<Rightarrow>
     real option \<Rightarrow> real option \<Rightarrow> real option \<Rightarrow> fundamental" where
  "fundamental_record quarter_str yr rvn op_income net assets debt equity cash =
     \<lparr>quarter = quarter_str,
      year = yr,
      revenue = rvn,
      operating_income = op_income,
      net_income = net,
      total_assets = assets,
      total_debt = debt,
      shareholders_equity = equity,
      cash_and_equivalents = cash,
      ebit_margin =
        (if truthy rvn \<and> truthy op_income
         then Some (fmul (fdiv (the op_income) (the rvn)) 100) else None),
      roe =
        (if truthy net \<and> truthy equity
         then Some (fmul (fdiv (the net) (the equity)) 100) else None),
      debt_to_equity =
        (if truthy debt \<and> truthy equity then Some (fdiv (the debt) (the equity)) else None)\<rparr>"

section \<open>Technical indicators\<close>

text \<open>
  A pandas frame is a list of rows; a row lists column labels with their cells, and a NaN
  cell is \<open>None\<close>.  A frame is \<open>empty\<close> when it has no row or no column.  A position outside
  the frame raises \<open>IndexError\<close>.
\<close>

datatype py_error = KeyError | IndexError | ValueError

type_synonym series = "(string \<times> real option) list"

type_synonym dataframe = "series list"

definition df_empty :: "dataframe \<Rightarrow> bool" where
  "df_empty df = list_all (\<lambda>r. r = []) df"

definition iloc :: "dataframe \<Rightarrow> int \<Rightarrow> py_error + series" where
  "iloc df i =
     (if 0 \<le> i \<and> i < int (length df) then Inr (df ! nat i)
      else if i < 0 \<and> - i \<le> int (length df) then Inr (df ! nat (int (length df) + i))
      else Inl IndexError)"

text \<open>
  \<open>row[label]\<close>: a label that is not there raises \<open>KeyError\<close>; a label that occurs once
  gives its cell; a label that occurs several times gives a Series of all its cells.
\<close>

datatype item = Scalar "real option" | Several "real option list"

definition getitem :: "series \<Rightarrow> string \<Rightarrow> py_error + item" where
  "getitem row label =
     (case map snd (filter (\<lambda>entry. fst entry = label) row) of
        [] \<Rightarrow> Inl KeyError
      | [c] \<Rightarrow> Inr (Scalar c)
      | c # d # cs \<Rightarrow> Inr (Several (c # d # cs)))"

text \<open>
  \<open>pd.notna(v)\<close> used as a condition.  For a scalar it tells whether the cell holds a
  number.  For a Series it is a Series of booleans, and taking its truth value raises
  \<open>ValueError\<close>.  When the condition can be taken, \<open>v\<close> is the scalar cell returned here.
\<close>

definition notna_condition :: "item \<Rightarrow> py_error + real option" where
  "notna_condition v = (case v of Scalar c \<Rightarrow> Inr c | Several cs \<Rightarrow> Inl ValueError)"

text \<open>Sequencing of steps that may raise: the first error ends the block.\<close>

definition and_then :: "'e + 'a \<Rightarrow> ('a \<Rightarrow> 'e + 'b) \<Rightarrow> 'e + 'b" where
  "and_then m f = (case m of Inl e \<Rightarrow> Inl e | Inr v \<Rightarrow> f v)"

text \<open>The result returned on the early exit and by the \<open>except\<close> branch.\<close>

definition no_indicators :: technical_analysis where
  "no_indicators =
     \<lparr>ma_20 = None, ma_50 = None, ma_200 = None,
      price_vs_ma20 = None, price_vs_ma50 = None, price_vs_ma200 = None,
      ma50_rising = False\<rparr>"

text \<open>
  \<open>((current_price - ma) / ma * 100) if pd.notna(ma) else None\<close>, and the entries of the
  returned dictionary, \<open>round(v, 2) if v else None\<close> and
  \<open>round(ma, 2) if pd.notna(ma) else None\<close>.
\<close>

definition price_vs :: "real \<Rightarrow> real option \<Rightarrow> npfloat option" where
  "price_vs current_price ma =
     (case ma of
        None \<Rightarrow> None
      | Some m \<Rightarrow> Some (np_times (np_div (np_sub current_price m) m) 100))"

definition rounded_if_truthy :: "npfloat option \<Rightarrow> npfloat option" where
  "rounded_if_truthy v =
     (case v of
        None \<Rightarrow> None
      | Some x \<Rightarrow> if np_truthy x then Some (np_round x 2) else None)"

definition rounded_if_notna :: "real option \<Rightarrow> real option" where
  "rounded_if_notna ma = (case ma of None \<Rightarrow> None | Some m \<Rightarrow> Some (numpy_round m 2))"

text \<open>
  The \<open>try\<close> block of \<open>analyze_technical_indicators\<close>: the three reads of the last row, the
  three deviations (each starts with the condition \<open>pd.notna(ma)\<close>), the trend over ten
  rows, and the dictionary.
\<close>

definition technical_try :: "dataframe \<Rightarrow> real \<Rightarrow> py_error + technical_analysis" where
  "technical_try technical_data current_price =
     and_then (iloc technical_data (- 1)) (\<lambda>latest_data.
     and_then (getitem latest_data ''MA_20'') (\<lambda>ma_20_read.
     and_then (getitem latest_data ''MA_50'') (\<lambda>ma_50_read.
     and_then (getitem latest_data ''MA_200'') (\<lambda>ma_200_read.
     and_then (notna_condition ma_20_read) (\<lambda>ma20.
     and_then (notna_condition ma_50_read) (\<lambda>ma50.
     and_then (notna_condition ma_200_read) (\<lambda>ma200.
     and_then
       (if length technical_data \<ge> 10 \<and> ma50 \<noteq> None then
          and_then (iloc technical_data (- 10)) (\<lambda>row.
          and_then (getitem row ''MA_50'') (\<lambda>old_read.
          and_then (notna_condition old_read) (\<lambda>ma50_10_days_ago.
          Inr (case (ma50, ma50_10_days_ago) of
                 (Some a, Some b) \<Rightarrow> a > b
               | _ \<Rightarrow> False))))
        else Inr False) (\<lambda>rising.
     Inr \<lparr>ma_20 = rounded_if_notna ma20,
          ma_50 = rounded_if_notna ma50,
          ma_200 = rounded_if_notna ma200,
          price_vs_ma20 = rounded_if_truthy (price_vs current_price ma20),
          price_vs_ma50 = rounded_if_truthy (price_vs current_price ma50),
          price_vs_ma200 = rounded_if_truthy (price_vs current_price ma200),
          ma50_rising = rising\<rparr>))))))))"

text \<open>The dictionary that \<open>analyze_technical_indicators\<close> returns.\<close>

definition analyze_technical_indicators ::
    "dataframe \<Rightarrow> real option \<Rightarrow> technical_analysis" where
  "analyze_technical_indicators technical_data current_price =
     (if df_empty technical_data \<or> current_price = None then no_indicators
      else (case technical_try technical_data (the current_price) of
              Inl e \<Rightarrow> no_indicators
            | Inr result \<Rightarrow> result))"

text \<open>
  The call itself, as a computation that returns a dictionary or raises.  The guard before
  the \<open>try\<close> statement reads an attribute of the frame and compares with \<open>None\<close>; the handler
  \<open>except Exception\<close> takes every error of the block, prints it and returns.  The block is a
  parameter here: the outcome of the call is described for whatever the block does, with
  errors of any kind \<open>'e\<close>.
\<close>

definition try_except :: "'e + 'a \<Rightarrow> ('e \<Rightarrow> 'e + 'a) \<Rightarrow> 'e + 'a" where
  "try_except block handler = (case block of Inl e \<Rightarrow> handler e | Inr v \<Rightarrow> Inr v)"

definition call_technical_indicators ::
    "(dataframe \<Rightarrow> real \<Rightarrow> 'e + technical_analysis) \<Rightarrow> dataframe \<Rightarrow> real option
     \<Rightarrow> 'e + technical_analysis" where
  "call_technical_indicators try_block technical_data current_price =
     (if df_empty technical_data \<or> current_price = None then Inr no_indicators
      else try_except (try_block technical_data (the current_price))
             (\<lambda>e. Inr no_indicators))"

text \<open>How often a label occurs in a row.\<close>

definition label_count :: "series \<Rightarrow> string \<Rightarrow> nat" where
  "label_count row label = length (filter (\<lambda>entry. fst entry = label) row)"

text \<open>
  A frame of price points: every row carries each of the three moving-average columns once
  (each cell a number or NaN).
\<close>

definition price_frame :: "dataframe \<Rightarrow> bool" where
  "price_frame df =
     list_all (\<lambda>r. label_count r ''MA_20'' = 1 \<and> label_count r ''MA_50'' = 1
                  \<and> label_count r ''MA_200'' = 1) df"

text \<open>The cell of a row under a label; a column that is missing reads as NaN here.\<close>

definition cell :: "series \<Rightarrow> string \<Rightarrow> real option" where
  "cell row label = (case map_of row label of None \<Rightarrow> None | Some c \<Rightarrow> c)"

section \<open>Analysis of one stock\<close>

record analysis_result =
  symbol :: string
  revenue_growth_4q :: "real option"
  avg_ebit_margin :: "real option"
  current_price :: "real option"
  result_ma_20 :: "real option"
  result_ma_50 :: "real option"
  result_ma_200 :: "real option"
  result_price_vs_ma20 :: "npfloat option"
  result_price_vs_ma50 :: "npfloat option"
  result_price_vs_ma200 :: "npfloat option"
  result_ma50_rising :: bool
  ebit_trend_details :: ebit_analysis
  technical_details :: technical_analysis
  ranking_score :: real
  recommendation :: string
  rank :: "nat option"

text \<open>\<open>analyze_stock\<close>; the dictionary it returns has no \<open>rank\<close> key yet.\<close>

definition analyze_stock ::
    "string \<Rightarrow> fundamental list \<Rightarrow> dataframe \<Rightarrow> real option \<Rightarrow> analysis_result" where
  "analyze_stock ticker fundamental_data technical_data price =
     (let revenue_growth = calculate_revenue_growth fundamental_data;
          ebit_an = analyze_ebit_margin_trend fundamental_data;
          technical_an = analyze_technical_indicators technical_data price;
          score = real_of_int (calculate_ranking_score revenue_growth ebit_an technical_an)
      in \<lparr>symbol = ticker,
          revenue_growth_4q = revenue_growth,
          avg_ebit_margin = avg_margin ebit_an,
          current_price = price,
          result_ma_20 = ma_20 technical_an,
          result_ma_50 = ma_50 technical_an,
          result_ma_200 = ma_200 technical_an,
          result_price_vs_ma20 = price_vs_ma20 technical_an,
          result_price_vs_ma50 = price_vs_ma50 technical_an,
          result_price_vs_ma200 = price_vs_ma200 technical_an,
          result_ma50_rising = ma50_rising technical_an,
          ebit_trend_details = ebit_an,
          technical_details = technical_an,
          ranking_score = score,
          recommendation = recommendation_of score,
          rank = None\<rparr>)"

section \<open>Ranking a batch\<close>

text \<open>
  The results are Python dictionaries, shared between the input list and the sorted list and
  updated in place.  A heap maps references to records; a list of results is a list of
  references.
\<close>

type_synonym ref = nat

type_synonym heap = "ref \<Rightarrow> analysis_result"

text \<open>The loop \<open>for i, stock in enumerate(ranked_stocks): stock['rank'] = i + 1\<close>.\<close>

fun assign_ranks :: "heap \<Rightarrow> nat \<Rightarrow> ref list \<Rightarrow> heap" where
  "assign_ranks h i [] = h"
| "assign_ranks h i (stock # rest) =
     assign_ranks (h(stock := (h stock)\<lparr>rank := Some (i + 1)\<rparr>)) (i + 1) rest"

definition rank_stocks :: "heap \<Rightarrow> ref list \<Rightarrow> heap \<times> ref list" where
  "rank_stocks h analysis_results =
     (let ranked_stocks = sorted_reverse (\<lambda>x. ranking_score (h x)) analysis_results
      in (assign_ranks h 0 ranked_stocks, ranked_stocks))"

section \<open>Sample inputs\<close>




text \<open>Ten trading days whose 50-day average climbs from 90 to 95, with one NaN cell.\<close>

definition sample_row :: "real option \<Rightarrow> series" where
  "sample_row m50 = [(''MA_20'', Some 100), (''MA_50'', m50), (''MA_200'', Some 80)]"

definition rising_frame :: dataframe where
  "rising_frame =
     [sample_row (Some 90), sample_row (Some 91), sample_row None, sample_row (Some 92),
      sample_row (Some 93), sample_row (Some 93), sample_row (Some 94), sample_row (Some 94),
      sample_row (Some 94), sample_row (Some 95)]"

text \<open>A frame whose last row carries the label \<open>MA_50\<close> twice, and one that lacks it.\<close>

definition doubled_frame :: dataframe where
  "doubled_frame =
     [[(''MA_20'', Some 100), (''MA_50'', Some 95), (''MA_50'', Some 96), (''MA_200'', Some 80)]]"

definition lacking_frame :: dataframe where
  "lacking_frame = [[(''MA_20'', Some 100), (''MA_200'', Some 80)]]"

text \<open>A heap holding three results, two of them with the same score.\<close>

definition sample_result :: "string \<Rightarrow> real \<Rightarrow> analysis_result" where
  "sample_result ticker score =
     (analyze_stock ticker [] [] None)
       \<lparr>ranking_score := score, recommendation := recommendation_of score\<rparr>"

definition sample_heap :: heap where
  "sample_heap =
     (\<lambda>_. sample_result ''NONE'' 0)
       (0 := sample_result ''AAA'' 50, 1 := sample_result ''BBB'' 90,
        2 := sample_result ''CCC'' 50)"

section \<open>Properties of the ranking score\<close>

lemma revenue_growth_points_range: "0 \<le> revenue_growth_points g \<and> revenue_growth_points g \<le> 40"
  by (simp add: revenue_growth_points_def split: option.split)

lemma ebit_margin_points_range: "0 \<le> ebit_margin_points m \<and> ebit_margin_points m \<le> 40"
  by (simp add: ebit_margin_points_def split: option.split)

lemma ma50_points_range: "0 \<le> ma50_points b \<and> ma50_points b \<le> 20"
  by (simp add: ma50_points_def)

lemma score_as_components:
  "calculate_ranking_score g e t =
     revenue_growth_points g + ebit_margin_points (avg_margin e) + ma50_points (ma50_rising t)"
  by (simp add: calculate_ranking_score_def revenue_growth_points_def ebit_margin_points_def
      ma50_points_def Let_def split: option.split)

text \<open>
  C1.  The score is the sum of the three tabulated components, whatever the inputs; an absent
  input contributes 0; a value on a threshold (10, 5, 0 for growth; 25, 20, 15, 10, 5 for the
  margin) earns the points of the bucket above it.
\<close>

theorem ranking_score_is_sum_of_components:
  "calculate_ranking_score g e t =
     revenue_growth_points g + ebit_margin_points (avg_margin e) + ma50_points (ma50_rising t)
   \<and> revenue_growth_points None = 0
   \<and> ebit_margin_points None = 0
   \<and> ma50_points False = 0 \<and> ma50_points True = 20
   \<and> revenue_growth_points (Some 10) = 40
   \<and> revenue_growth_points (Some 5) = 30
   \<and> revenue_growth_points (Some 0) = 20
   \<and> ebit_margin_points (Some 25) = 40
   \<and> ebit_margin_points (Some 20) = 35
   \<and> ebit_margin_points (Some 15) = 30
   \<and> ebit_margin_points (Some 10) = 20
   \<and> ebit_margin_points (Some 5) = 10"
  by (simp add: score_as_components revenue_growth_points_def ebit_margin_points_def
      ma50_points_def)

text \<open>
  C2.  Whatever the three inputs, the score lies between 0 and 100; with growth present and
  at least 10, margin present and at least 25, and a rising MA50, it is exactly 100.
\<close>

theorem ranking_score_bounds:
  "0 \<le> calculate_ranking_score g e t \<and> calculate_ranking_score g e t \<le> 100
   \<and> (\<forall>x m. g = Some x \<and> 10 \<le> x \<and> avg_margin e = Some m \<and> 25 \<le> m \<and> ma50_rising t
        \<longrightarrow> calculate_ranking_score g e t = 100)"
proof -
  let ?a = "revenue_growth_points g" and ?b = "ebit_margin_points (avg_margin e)"
    and ?c = "ma50_points (ma50_rising t)"
  have sum: "calculate_ranking_score g e t = ?a + ?b + ?c"
    by (rule score_as_components)
  have "0 \<le> ?a + ?b + ?c" "?a + ?b + ?c \<le> 100"
    using revenue_growth_points_range [of g] ebit_margin_points_range [of "avg_margin e"]
      ma50_points_range [of "ma50_rising t"] by linarith+
  moreover have "calculate_ranking_score g e t = 100"
    if "g = Some x" "10 \<le> x" "avg_margin e = Some m" "25 \<le> m" "ma50_rising t" for x m
    using that
    by (simp add: score_as_components revenue_growth_points_def ebit_margin_points_def
        ma50_points_def)
  ultimately show ?thesis
    unfolding sum by blast
qed

theorem ranking_score_bounds_witness:
  "calculate_ranking_score (Some 12) \<lparr>avg_margin = Some 30\<rparr>
     (no_indicators\<lparr>ma50_rising := True\<rparr>) = 100"
proof -
  have "Some 12 = Some (12::real) \<and> (10::real) \<le> 12
      \<and> avg_margin \<lparr>avg_margin = Some 30\<rparr> = Some 30 \<and> (25::real) \<le> 30
      \<and> ma50_rising (no_indicators\<lparr>ma50_rising := True\<rparr>)"
    by simp
  with ranking_score_bounds [of "Some 12" "\<lparr>avg_margin = Some 30\<rparr>"
      "no_indicators\<lparr>ma50_rising := True\<rparr>"]
  show ?thesis by blast
qed

section \<open>Properties of the recommendation\<close>

text \<open>
  C3.  The recommendation stored by \<open>analyze_stock\<close> is the label of the stored ranking
  score and of nothing else: STRONG BUY from 80 up, BUY from 60 up to but excluding 80, HOLD
  from 40 up to but excluding 60, SELL below 40.  In particular 79.9 is a BUY and 80.0 a
  STRONG BUY.
\<close>

theorem recommendation_from_score:
  "recommendation (analyze_stock ticker fd td p)
     = recommendation_of (ranking_score (analyze_stock ticker fd td p))
   \<and> (\<forall>s. 80 \<le> s \<longrightarrow> recommendation_of s = ''STRONG BUY'')
   \<and> (\<forall>s. 60 \<le> s \<and> s < 80 \<longrightarrow> recommendation_of s = ''BUY'')
   \<and> (\<forall>s. 40 \<le> s \<and> s < 60 \<longrightarrow> recommendation_of s = ''HOLD'')
   \<and> (\<forall>s. s < 40 \<longrightarrow> recommendation_of s = ''SELL'')
   \<and> recommendation_of 79.9 = ''BUY''
   \<and> recommendation_of 80.0 = ''STRONG BUY''"
  by (simp add: analyze_stock_def recommendation_of_def Let_def)

theorem recommendation_from_score_witness:
  "recommendation_of 85 = ''STRONG BUY'' \<and> recommendation_of 65 = ''BUY''
   \<and> recommendation_of 45 = ''HOLD'' \<and> recommendation_of 10 = ''SELL''
   \<and> recommendation (analyze_stock ''ACME'' [] [] None) = ''SELL''"
proof -
  note r = recommendation_from_score [of "''ACME''" "[]" "[]" None]
  have a: "recommendation_of 85 = ''STRONG BUY''" using r by simp
  have b: "recommendation_of 65 = ''BUY''" using r by simp
  have c: "recommendation_of 45 = ''HOLD''" using r by simp
  have d: "recommendation_of 10 = ''SELL''" using r by simp
  have "ranking_score (analyze_stock ''ACME'' [] [] None) = 0"
    by (simp add: analyze_stock_def calculate_ranking_score_def calculate_revenue_growth_def
        analyze_ebit_margin_trend_def analyze_technical_indicators_def df_empty_def
        no_indicators_def)
  then have "recommendation (analyze_stock ''ACME'' [] [] None) = ''SELL''"
    using r by simp
  with a b c d show ?thesis by simp
qed

section \<open>Properties of the float arithmetic\<close>

text \<open>
  The exponent function brackets its argument between two powers of two, and rounding to
  binary64 moves a number by at most half a step of the significand.
\<close>

lemma pow2_pos: "0 < pow2 e"
  by (simp add: pow2_def)

lemma pow2_Suc: "pow2 (e + 1) = 2 * pow2 e"
proof (cases "0 \<le> e")
  case True
  then show ?thesis by (simp add: pow2_def nat_add_distrib)
next
  case False
  then have "nat (- e) = Suc (nat (- (e + 1)))" by linarith
  with False show ?thesis by (auto simp: pow2_def)
qed

lemma binary_exponent_bounds:
  assumes "x \<noteq> 0"
  shows "pow2 (binary_exponent x) \<le> \<bar>x\<bar> \<and> \<bar>x\<bar> < pow2 (binary_exponent x + 1)"
proof (cases "1 \<le> \<bar>x\<bar>")
  case True
  let ?n = "\<lfloor>\<bar>x\<bar>\<rfloor>"
  from True have n: "0 < ?n" by linarith
  have e: "binary_exponent x = bitlen ?n - 1"
    using True by (simp add: binary_exponent_def Let_def)
  from n have b1: "1 \<le> bitlen ?n"
    by (auto simp: bitlen_alt_def)
  from bitlen_bounds [OF n] have lo: "2 ^ nat (bitlen ?n - 1) \<le> ?n" and hi: "?n < 2 ^ nat (bitlen ?n)"
    by simp_all
  have "pow2 (bitlen ?n - 1) = 2 ^ nat (bitlen ?n - 1)"
    using b1 by (simp add: pow2_def)
  also have "\<dots> \<le> real_of_int ?n"
    using lo by (metis of_int_le_iff of_int_numeral of_int_power)
  also have "\<dots> \<le> \<bar>x\<bar>" by linarith
  finally have A: "pow2 (binary_exponent x) \<le> \<bar>x\<bar>" by (simp add: e)
  from hi have "?n + 1 \<le> 2 ^ nat (bitlen ?n)" by linarith
  then have "real_of_int (?n + 1) \<le> 2 ^ nat (bitlen ?n)"
    by (metis of_int_le_iff of_int_numeral of_int_power)
  then have "real_of_int ?n + 1 \<le> 2 ^ nat (bitlen ?n)" by simp
  moreover have "\<bar>x\<bar> < real_of_int ?n + 1" by linarith
  ultimately have "\<bar>x\<bar> < 2 ^ nat (bitlen ?n)" by linarith
  moreover have "pow2 (bitlen ?n - 1 + 1) = 2 ^ nat (bitlen ?n)"
    using b1 by (simp add: pow2_def)
  ultimately have B: "\<bar>x\<bar> < pow2 (binary_exponent x + 1)" by (simp add: e)
  from A B show ?thesis by simp
next
  case False
  let ?a = "\<bar>x\<bar>"
  let ?m = "\<lceil>1 / ?a\<rceil>"
  from assms False have a: "0 < ?a" "?a < 1" by simp_all
  then have y: "1 < 1 / ?a" by simp
  then have m: "0 < ?m - 1" by linarith
  have e: "binary_exponent x = - bitlen (?m - 1)"
    using False by (simp add: binary_exponent_def Let_def)
  let ?b = "bitlen (?m - 1)"
  from m have b1: "1 \<le> ?b"
    by (auto simp: bitlen_alt_def)
  from bitlen_bounds [OF m] have lo: "2 ^ nat (?b - 1) \<le> ?m - 1" and hi: "?m - 1 < 2 ^ nat ?b"
    by simp_all
  from hi have "?m \<le> 2 ^ nat ?b" by linarith
  then have "real_of_int ?m \<le> 2 ^ nat ?b" by simp
  moreover have "1 / ?a \<le> real_of_int ?m" by linarith
  ultimately have "1 / ?a \<le> 2 ^ nat ?b" by linarith
  then have "1 \<le> 2 ^ nat ?b * ?a"
    using a by (simp add: pos_divide_le_eq)
  then have "1 / 2 ^ nat ?b \<le> ?a"
    by (simp add: pos_divide_le_eq mult.commute)
  moreover have "pow2 (- ?b) = 1 / 2 ^ nat ?b"
    using b1 by (simp add: pow2_def)
  ultimately have A: "pow2 (binary_exponent x) \<le> ?a" by (simp add: e)
  from lo have "2 ^ nat (?b - 1) \<le> real_of_int (?m - 1)"
    by (metis of_int_le_iff of_int_numeral of_int_power)
  moreover have "real_of_int (?m - 1) < 1 / ?a" by linarith
  ultimately have "2 ^ nat (?b - 1) < 1 / ?a" by linarith
  then have "2 ^ nat (?b - 1) * ?a < 1"
    using a by (simp add: pos_less_divide_eq)
  then have "?a < 1 / 2 ^ nat (?b - 1)"
    by (simp add: pos_less_divide_eq mult.commute)
  moreover have "pow2 (- ?b + 1) = 1 / 2 ^ nat (?b - 1)"
  proof (cases "?b = 1")
    case True
    then show ?thesis by (simp add: pow2_def)
  next
    case False
    with b1 have "- ?b + 1 < 0" "nat (- (- ?b + 1)) = nat (?b - 1)" by linarith+
    then show ?thesis by (simp add: pow2_def)
  qed
  ultimately have B: "?a < pow2 (binary_exponent x + 1)" by (simp add: e)
  from A B show ?thesis by simp
qed

lemma round_half_even_near: "\<bar>x - of_int (round_half_even x)\<bar> \<le> 1 / 2"
proof -
  have "of_int \<lfloor>x\<rfloor> \<le> x" "x < of_int \<lfloor>x\<rfloor> + 1"
    by linarith+
  then show ?thesis
    by (simp add: round_half_even_def Let_def abs_le_iff)
qed

lemma fl_half_step:
  "\<bar>fl x - x\<bar> \<le> pow2 (max (binary_exponent x) (- 1022) - 52) / 2"
proof (cases "x = 0")
  case True
  then show ?thesis using pow2_pos [of "max (binary_exponent x) (- 1022) - 52"]
    by (simp add: fl_def)
next
  case False
  let ?P = "pow2 (max (binary_exponent x) (- 1022) - 52)"
  have P: "0 < ?P" by (rule pow2_pos)
  have "fl x - x = (of_int (round_half_even (x / ?P)) - x / ?P) * ?P"
    using False P by (simp add: fl_def Let_def algebra_simps)
  then have "\<bar>fl x - x\<bar> = \<bar>x / ?P - of_int (round_half_even (x / ?P))\<bar> * ?P"
    using P by (simp add: abs_mult abs_minus_commute)
  also have "\<dots> \<le> 1 / 2 * ?P"
    using round_half_even_near [of "x / ?P"] P by (intro mult_right_mono) simp_all
  finally show ?thesis by simp
qed



section \<open>Properties of the derived ratios\<close>

text \<open>
  C5.  A quarter with revenue 100 and an operating income of exactly 0 has both line items
  present and a nonzero revenue, yet the record built for it carries no EBIT margin: the
  guard tests the truthiness of the operating income, and zero is falsy.
\<close>

theorem zero_operating_income_margin_absent:
  "ebit_margin (fundamental_record ''Q1'' 2024 (Some 100) (Some 0) None None None None None)
     = None"
  by (simp add: fundamental_record_def)

section \<open>Properties of the technical indicators\<close>

text \<open>
  C6.  For a one-row frame whose three moving averages are 100 and a current price of 100,
  the 20-day average is reported as 100 but the deviation from it is reported absent rather
  than 0: the returned entry is guarded by the truthiness of the deviation.
\<close>

theorem price_at_average_deviation_absent:
  "ma_20 (analyze_technical_indicators
      [[(''MA_20'', Some 100), (''MA_50'', Some 100), (''MA_200'', Some 100)]] (Some 100))
     = Some 100
   \<and> price_vs_ma20 (analyze_technical_indicators
      [[(''MA_20'', Some 100), (''MA_50'', Some 100), (''MA_200'', Some 100)]] (Some 100))
     = None"
  by code_simp

section \<open>Properties of the revenue growth\<close>

lemma mset_sorted_reverse: "mset (sorted_reverse k xs) = mset xs"
  by (simp add: sorted_reverse_def)

lemma length_sorted_reverse: "length (sorted_reverse k xs) = length xs"
  by (simp add: sorted_reverse_def)

lemma set_sorted_reverse: "set (sorted_reverse k xs) = set xs"
  by (simp add: sorted_reverse_def)

lemma distinct_sorted_reverse: "distinct (sorted_reverse k xs) = distinct xs"
  by (simp add: sorted_reverse_def)

lemma sorted_reverse_descending: "sorted (rev (map k (sorted_reverse k xs)))"
  by (simp add: sorted_reverse_def rev_map)

lemma sorted_reverse_stable:
  "filter (\<lambda>y. k y = v) (sorted_reverse k xs) = filter (\<lambda>y. k y = v) xs"
proof -
  have "filter (\<lambda>y. k y = v) (sorted_reverse k xs)
      = rev (filter (\<lambda>y. k y = v) (sort_key k (rev xs)))"
    by (simp add: sorted_reverse_def rev_filter)
  also have "\<dots> = rev (filter (\<lambda>y. k y = v) (rev xs))"
    by (simp only: sort_key_stable)
  also have "\<dots> = filter (\<lambda>y. k y = v) xs"
    by (simp add: rev_filter)
  finally show ?thesis .
qed






section \<open>Properties of the MA50 trend and of the degraded result\<close>

lemma iloc_last: "td \<noteq> [] \<Longrightarrow> iloc td (- 1) = Inr (last td)"
proof -
  assume ne: "td \<noteq> []"
  then have pos: "1 \<le> length td"
    by (cases td) simp_all
  then have "nat (int (length td) + - 1) = length td - 1"
    by linarith
  with ne pos show ?thesis
    by (simp add: iloc_def last_conv_nth)
qed

lemma iloc_tenth: "10 \<le> length td \<Longrightarrow> iloc td (- 10) = Inr (td ! (length td - 10))"
proof -
  assume len: "10 \<le> length td"
  then have "nat (int (length td) + - 10) = length td - 10"
    by linarith
  with len show ?thesis
    by (simp add: iloc_def)
qed

lemma map_of_first:
  "map_of row label =
     (case filter (\<lambda>entry. fst entry = label) row of [] \<Rightarrow> None | e # es \<Rightarrow> Some (snd e))"
  by (induction row) auto

lemma getitem_Scalar_cell: "getitem r k = Inr (Scalar c) \<Longrightarrow> cell r k = c"
  by (auto simp: getitem_def cell_def map_of_first split: list.splits)

lemma getitem_Scalar_once: "getitem r k = Inr (Scalar c) \<Longrightarrow> label_count r k = 1"
  by (auto simp: getitem_def label_count_def split: list.splits)

lemma getitem_once: "label_count r k = 1 \<Longrightarrow> getitem r k = Inr (Scalar (cell r k))"
proof -
  assume "label_count r k = 1"
  then obtain e where e: "filter (\<lambda>entry. fst entry = k) r = [e]"
    unfolding label_count_def by (cases "filter (\<lambda>entry. fst entry = k) r") auto
  then show ?thesis
    by (simp add: getitem_def cell_def map_of_first)
qed

lemma and_then_Inr:
  "and_then m f = Inr r \<longleftrightarrow> (\<exists>v. m = Inr v \<and> f v = Inr r)"
  by (cases m) (simp_all add: and_then_def)

lemma and_then_Inr_simp: "and_then (Inr v) f = f v"
  by (simp add: and_then_def)

lemma notna_condition_Inr: "notna_condition v = Inr c \<longleftrightarrow> v = Scalar c"
  by (cases v) (simp_all add: notna_condition_def)

lemma ma50_rising_no_indicators: "\<not> ma50_rising no_indicators"
  by (simp add: no_indicators_def)

lemma technical_try_rising:
  assumes "technical_try td p = Inr r" and "ma50_rising r"
  shows "10 \<le> length td \<and> (\<exists>a b. cell (last td) ''MA_50'' = Some a
           \<and> cell (td ! (length td - 10)) ''MA_50'' = Some b \<and> b < a)"
proof -
  from assms(1) obtain latest m50 rising where
    latest: "iloc td (- 1) = Inr latest"
    and m50: "getitem latest ''MA_50'' = Inr (Scalar m50)"
    and rising: "(if 10 \<le> length td \<and> m50 \<noteq> None then
          and_then (iloc td (- 10)) (\<lambda>row.
          and_then (getitem row ''MA_50'') (\<lambda>old_read.
          and_then (notna_condition old_read) (\<lambda>ma50_10_days_ago.
          Inr (case (m50, ma50_10_days_ago) of
                 (Some a, Some b) \<Rightarrow> a > b
               | _ \<Rightarrow> False))))
        else Inr False) = Inr rising"
    and r: "ma50_rising r = rising"
    unfolding technical_try_def and_then_Inr notna_condition_Inr by auto
  from r assms(2) have rising_true: rising by simp
  with rising have len: "10 \<le> length td" and "m50 \<noteq> None"
    by (auto split: if_splits)
  then obtain a where a: "m50 = Some a" by auto
  from len have "td \<noteq> []" by auto
  with latest have "latest = last td" by (simp add: iloc_last)
  with m50 a have ca: "cell (last td) ''MA_50'' = Some a"
    by (simp add: getitem_Scalar_cell)
  from rising len a rising_true obtain old where
    old: "getitem (td ! (length td - 10)) ''MA_50'' = Inr (Scalar old)"
    and cmp: "(case (Some a, old) of (Some a, Some b) \<Rightarrow> a > b | _ \<Rightarrow> False)"
    by (auto simp: iloc_tenth and_then_Inr notna_condition_Inr)
  from cmp obtain b where b: "old = Some b" "b < a"
    by (cases old) auto
  with old have "cell (td ! (length td - 10)) ''MA_50'' = Some b"
    by (simp add: getitem_Scalar_cell)
  with len ca b show ?thesis by blast
qed

lemma technical_try_Inr_labels:
  assumes "technical_try td p = Inr r"
  shows "td \<noteq> [] \<and> label_count (last td) ''MA_20'' = 1 \<and> label_count (last td) ''MA_50'' = 1
           \<and> label_count (last td) ''MA_200'' = 1"
proof -
  from assms obtain latest m20 m50 m200 where
    latest: "iloc td (- 1) = Inr latest"
    and reads: "getitem latest ''MA_20'' = Inr (Scalar m20)"
      "getitem latest ''MA_50'' = Inr (Scalar m50)"
      "getitem latest ''MA_200'' = Inr (Scalar m200)"
    unfolding technical_try_def and_then_Inr notna_condition_Inr by auto
  from latest have ne: "td \<noteq> []"
    by (auto simp: iloc_def)
  with latest have "latest = last td"
    by (simp add: iloc_last)
  with reads ne show ?thesis
    by (simp add: getitem_Scalar_once)
qed

lemma price_frame_row: "price_frame td \<Longrightarrow> r \<in> set td \<Longrightarrow>
  label_count r ''MA_20'' = 1 \<and> label_count r ''MA_50'' = 1 \<and> label_count r ''MA_200'' = 1"
  unfolding price_frame_def list_all_iff by blast

lemma price_frame_not_empty: "price_frame td \<Longrightarrow> td \<noteq> [] \<Longrightarrow> \<not> df_empty td"
proof
  assume pf: "price_frame td" and ne: "td \<noteq> []" and "df_empty td"
  then have "last td = []"
    by (simp add: df_empty_def list_all_iff)
  moreover from pf ne have "label_count (last td) ''MA_20'' = 1"
    using price_frame_row by (metis last_in_set)
  ultimately show False by (simp add: label_count_def)
qed

lemma technical_try_price_frame:
  assumes pf: "price_frame td" and len: "10 \<le> length td"
    and a: "cell (last td) ''MA_50'' = Some a"
    and b: "cell (td ! (length td - 10)) ''MA_50'' = Some b"
  shows "\<exists>r. technical_try td p = Inr r \<and> ma50_rising r = (b < a)"
proof -
  from len have ne: "td \<noteq> []" by auto
  then have "last td \<in> set td" by simp
  with pf have l: "getitem (last td) ''MA_20'' = Inr (Scalar (cell (last td) ''MA_20''))"
    "getitem (last td) ''MA_50'' = Inr (Scalar (Some a))"
    "getitem (last td) ''MA_200'' = Inr (Scalar (cell (last td) ''MA_200''))"
    using price_frame_row [of td "last td"] a by (simp_all add: getitem_once)
  from len have "td ! (length td - 10) \<in> set td" by simp
  with pf have o: "getitem (td ! (length td - 10)) ''MA_50'' = Inr (Scalar (Some b))"
    using price_frame_row [of td "td ! (length td - 10)"] b by (simp add: getitem_once)
  show ?thesis
    unfolding technical_try_def
    by (simp add: iloc_last [OF ne] iloc_tenth [OF len] l o and_then_Inr_simp len
        notna_condition_def)
qed

text \<open>
  C7.  With a current price present, the flag is false whenever the frame has fewer than ten
  rows, or the MA50 cell of the last row is NaN, or the MA50 cell of the tenth row from the
  end is NaN.  On a frame of price points with at least ten rows where both cells hold
  numbers \<open>a\<close> (last row) and \<open>b\<close> (tenth from the end), the flag is true exactly when
  \<open>b < a\<close>.
\<close>

theorem ma50_rising_contract:
  "(length td < 10 \<or> cell (last td) ''MA_50'' = None
      \<or> cell (td ! (length td - 10)) ''MA_50'' = None
      \<longrightarrow> \<not> ma50_rising (analyze_technical_indicators td (Some p)))
   \<and> (price_frame td \<and> 10 \<le> length td \<and> cell (last td) ''MA_50'' = Some a
      \<and> cell (td ! (length td - 10)) ''MA_50'' = Some b
      \<longrightarrow> ma50_rising (analyze_technical_indicators td (Some p)) = (b < a))"
proof (intro conjI impI)
  assume missing: "length td < 10 \<or> cell (last td) ''MA_50'' = None
      \<or> cell (td ! (length td - 10)) ''MA_50'' = None"
  show "\<not> ma50_rising (analyze_technical_indicators td (Some p))"
  proof
    assume up: "ma50_rising (analyze_technical_indicators td (Some p))"
    then obtain r where "technical_try td p = Inr r" "ma50_rising r"
      by (auto simp: analyze_technical_indicators_def ma50_rising_no_indicators
          split: if_splits sum.splits)
    then have "10 \<le> length td \<and> (\<exists>a b. cell (last td) ''MA_50'' = Some a
           \<and> cell (td ! (length td - 10)) ''MA_50'' = Some b \<and> b < a)"
      by (rule technical_try_rising)
    with missing show False by auto
  qed
next
  assume h: "price_frame td \<and> 10 \<le> length td \<and> cell (last td) ''MA_50'' = Some a
      \<and> cell (td ! (length td - 10)) ''MA_50'' = Some b"
  then obtain r where r: "technical_try td p = Inr r" "ma50_rising r = (b < a)"
    using technical_try_price_frame [of td a b p] by blast
  from h have "td \<noteq> []" by auto
  with h have "\<not> df_empty td"
    using price_frame_not_empty [of td] by blast
  with r show "ma50_rising (analyze_technical_indicators td (Some p)) = (b < a)"
    by (simp add: analyze_technical_indicators_def)
qed

theorem ma50_rising_contract_witness:
  "ma50_rising (analyze_technical_indicators rising_frame (Some 101))
   \<and> \<not> ma50_rising (analyze_technical_indicators (tl rising_frame) (Some 101))"
proof -
  have "price_frame rising_frame \<and> 10 \<le> length rising_frame
      \<and> cell (last rising_frame) ''MA_50'' = Some 95
      \<and> cell (rising_frame ! (length rising_frame - 10)) ''MA_50'' = Some 90"
    by (simp add: rising_frame_def sample_row_def price_frame_def cell_def label_count_def)
  then have a: "ma50_rising (analyze_technical_indicators rising_frame (Some 101))"
    using ma50_rising_contract [of rising_frame 101 95 90] by simp
  have "length (tl rising_frame) < 10"
    by (simp add: rising_frame_def)
  then have b: "\<not> ma50_rising (analyze_technical_indicators (tl rising_frame) (Some 101))"
    using ma50_rising_contract [of "tl rising_frame" 101] by blast
  from a b show ?thesis by simp
qed

text \<open>
  C8.  The call never raises: whatever the \<open>try\<close> block does, and whatever kind of error it
  raises, the call returns a dictionary.  When the frame is empty, or the current price is
  absent, or the block raises, the dictionary is the degraded one: the three averages and
  the three deviations absent, and the flag the boolean \<open>False\<close>.  For the block of the
  source the returned dictionary is the one \<open>analyze_technical_indicators\<close> denotes, and the
  block does raise, for one, when the last row lacks one of the three moving-average labels
  (\<open>KeyError\<close>) or carries one of them more than once (\<open>ValueError\<close>).
\<close>

theorem technical_indicators_degrade:
  "(\<exists>r. call_technical_indicators try_block td p = Inr r)
   \<and> (td = [] \<or> df_empty td \<or> p = None
        \<or> (\<exists>price e. p = Some price \<and> try_block td price = Inl e)
      \<longrightarrow> call_technical_indicators try_block td p = Inr no_indicators)
   \<and> call_technical_indicators technical_try td p = Inr (analyze_technical_indicators td p)
   \<and> (p = Some price
        \<and> (label_count (last td) ''MA_20'' \<noteq> 1 \<or> label_count (last td) ''MA_50'' \<noteq> 1
             \<or> label_count (last td) ''MA_200'' \<noteq> 1)
      \<longrightarrow> (\<exists>e. technical_try td price = Inl e)
          \<and> analyze_technical_indicators td p = no_indicators)
   \<and> ma_20 no_indicators = None \<and> ma_50 no_indicators = None \<and> ma_200 no_indicators = None
   \<and> price_vs_ma20 no_indicators = None \<and> price_vs_ma50 no_indicators = None
   \<and> price_vs_ma200 no_indicators = None
   \<and> ma50_rising no_indicators = False"
proof -
  have returns: "\<exists>r. call_technical_indicators try_block td p = Inr r"
    by (cases "try_block td (the p)")
       (simp_all add: call_technical_indicators_def try_except_def)
  have degraded: "call_technical_indicators try_block td p = Inr no_indicators"
    if "td = [] \<or> df_empty td \<or> p = None
        \<or> (\<exists>price e. p = Some price \<and> try_block td price = Inl e)"
    using that
    by (auto simp: call_technical_indicators_def try_except_def df_empty_def)
  have agree: "call_technical_indicators technical_try td p
      = Inr (analyze_technical_indicators td p)"
    by (cases "technical_try td (the p)")
       (simp_all add: call_technical_indicators_def try_except_def
          analyze_technical_indicators_def)
  have labels: "(\<exists>e. technical_try td price = Inl e)
      \<and> analyze_technical_indicators td p = no_indicators"
    if p: "p = Some price"
      and bad: "label_count (last td) ''MA_20'' \<noteq> 1 \<or> label_count (last td) ''MA_50'' \<noteq> 1
             \<or> label_count (last td) ''MA_200'' \<noteq> 1"
  proof -
    have "\<exists>e. technical_try td price = Inl e"
    proof (cases "technical_try td price")
      case (Inl e)
      then show ?thesis by blast
    next
      case (Inr r)
      from technical_try_Inr_labels [OF this] bad show ?thesis by blast
    qed
    then show ?thesis
      using p by (auto simp: analyze_technical_indicators_def)
  qed
  show ?thesis
    using returns degraded agree labels by (simp add: no_indicators_def)
qed

theorem technical_indicators_degrade_witness:
  "technical_try doubled_frame 101 = Inl ValueError
   \<and> call_technical_indicators technical_try doubled_frame (Some 101) = Inr no_indicators
   \<and> analyze_technical_indicators doubled_frame (Some 101) = no_indicators
   \<and> technical_try lacking_frame 101 = Inl KeyError
   \<and> analyze_technical_indicators lacking_frame (Some 101) = no_indicators
   \<and> call_technical_indicators technical_try [] (Some 101) = Inr no_indicators
   \<and> call_technical_indicators technical_try rising_frame None = Inr no_indicators"
proof -
  note t = technical_indicators_degrade [where try_block = technical_try]
  have v: "technical_try doubled_frame 101 = Inl ValueError"
    by (simp add: technical_try_def and_then_def iloc_def getitem_def notna_condition_def
        doubled_frame_def)
  have k: "technical_try lacking_frame 101 = Inl KeyError"
    by (simp add: technical_try_def and_then_def iloc_def getitem_def lacking_frame_def)
  have a: "call_technical_indicators technical_try doubled_frame (Some 101) = Inr no_indicators"
    using t [where td = doubled_frame and p = "Some 101" and price = 101] v by blast
  have "label_count (last doubled_frame) ''MA_50'' \<noteq> 1"
    by (simp add: doubled_frame_def label_count_def)
  then have b: "analyze_technical_indicators doubled_frame (Some 101) = no_indicators"
    using t [where td = doubled_frame and p = "Some 101" and price = 101] by blast
  have "label_count (last lacking_frame) ''MA_50'' \<noteq> 1"
    by (simp add: lacking_frame_def label_count_def)
  then have c: "analyze_technical_indicators lacking_frame (Some 101) = no_indicators"
    using t [where td = lacking_frame and p = "Some 101" and price = 101] by blast
  have d: "call_technical_indicators technical_try [] (Some 101) = Inr no_indicators"
    using t [where td = "[]" and p = "Some 101" and price = 101] by blast
  have e: "call_technical_indicators technical_try rising_frame None = Inr no_indicators"
    using t [where td = rising_frame and p = None and price = 101] by blast
  from v k a b c d e show ?thesis by simp
qed

section \<open>Properties of the batch ranking\<close>

lemma assign_ranks_outside: "r \<notin> set rs \<Longrightarrow> assign_ranks h i rs r = h r"
  by (induction rs arbitrary: h i) auto

lemma assign_ranks_inside:
  "r \<in> set rs \<Longrightarrow>
     \<exists>k. i < k \<and> k \<le> i + length rs \<and> assign_ranks h i rs r = (h r)\<lparr>rank := Some k\<rparr>"
proof (induction rs arbitrary: h i)
  case Nil
  then show ?case by simp
next
  case (Cons s rest)
  let ?h = "h(s := (h s)\<lparr>rank := Some (i + 1)\<rparr>)"
  show ?case
  proof (cases "r \<in> set rest")
    case True
    from Cons.IH [OF True, of "i + 1" ?h] obtain k where
      k: "i + 1 < k" "k \<le> i + 1 + length rest"
      and eq: "assign_ranks ?h (i + 1) rest r = (?h r)\<lparr>rank := Some k\<rparr>"
      by blast
    have "(?h r)\<lparr>rank := Some k\<rparr> = (h r)\<lparr>rank := Some k\<rparr>"
      by simp
    with k eq show ?thesis
      by (intro exI [of _ k]) simp
  next
    case False
    with Cons.prems have rs: "r = s" by simp
    from False have "assign_ranks ?h (i + 1) rest r = ?h r"
      by (rule assign_ranks_outside)
    with rs show ?thesis
      by (intro exI [of _ "i + 1"]) simp
  qed
qed

lemma assign_ranks_score: "ranking_score (assign_ranks h i rs r) = ranking_score (h r)"
proof (cases "r \<in> set rs")
  case True
  from assign_ranks_inside [OF True, of i h] show ?thesis by auto
next
  case False
  then show ?thesis by (simp add: assign_ranks_outside)
qed

lemma assign_ranks_nth:
  "distinct rs \<Longrightarrow> j < length rs \<Longrightarrow> rank (assign_ranks h i rs (rs ! j)) = Some (i + j + 1)"
proof (induction rs arbitrary: h i j)
  case Nil
  then show ?case by simp
next
  case (Cons s rest)
  show ?case
  proof (cases j)
    case 0
    with Cons.prems show ?thesis
      by (simp add: assign_ranks_outside)
  next
    case (Suc j')
    with Cons.prems have "distinct rest" "j' < length rest" by simp_all
    from Cons.IH [OF this] Suc show ?thesis by simp
  qed
qed

text \<open>
  C10.  The returned list is a rearrangement of the input list of dictionaries (same length,
  each dictionary as often as in the input).  The dictionaries are updated in place: each
  one named by the list is the dictionary it was with the \<open>rank\<close> entry set to a position
  between 1 and the length of the list, every other entry unchanged, and no other dictionary
  is touched.
\<close>

theorem rank_stocks_frame:
  "(case rank_stocks h refs of (h', out) \<Rightarrow>
      mset out = mset refs \<and> length out = length refs
      \<and> (\<forall>r. r \<in> set refs \<longrightarrow>
            (\<exists>k. 1 \<le> k \<and> k \<le> length refs \<and> h' r = (h r)\<lparr>rank := Some k\<rparr>))
      \<and> (\<forall>r. r \<notin> set refs \<longrightarrow> h' r = h r))"
proof -
  let ?out = "sorted_reverse (\<lambda>x. ranking_score (h x)) refs"
  have "\<exists>k. 1 \<le> k \<and> k \<le> length refs \<and> assign_ranks h 0 ?out r = (h r)\<lparr>rank := Some k\<rparr>"
    if "r \<in> set refs" for r
  proof -
    from that have "r \<in> set ?out" by (simp add: set_sorted_reverse)
    from assign_ranks_inside [OF this, of 0 h] obtain k where
      "0 < k" "k \<le> length refs" "assign_ranks h 0 ?out r = (h r)\<lparr>rank := Some k\<rparr>"
      by (auto simp: length_sorted_reverse)
    then show ?thesis
      by (intro exI [of _ k]) simp
  qed
  moreover have "assign_ranks h 0 ?out r = h r" if "r \<notin> set refs" for r
    using that by (simp add: assign_ranks_outside set_sorted_reverse)
  ultimately show ?thesis
    by (simp add: rank_stocks_def Let_def mset_sorted_reverse length_sorted_reverse)
qed

theorem rank_stocks_frame_witness:
  "mset (snd (rank_stocks sample_heap [0, 1, 2])) = mset [0, 1, 2]
   \<and> symbol (fst (rank_stocks sample_heap [0, 1, 2]) 1) = ''BBB''
   \<and> fst (rank_stocks sample_heap [0, 1, 2]) 7 = sample_heap 7"
proof -
  have "(1::nat) \<in> set [0, 1, 2] \<and> (7::nat) \<notin> set [0, 1, 2]"
    by simp
  with rank_stocks_frame [where h = sample_heap and refs = "[0, 1, 2]"]
  have "mset (snd (rank_stocks sample_heap [0, 1, 2])) = mset [0, 1, 2]"
    and "\<exists>k. fst (rank_stocks sample_heap [0, 1, 2]) 1 = (sample_heap 1)\<lparr>rank := Some k\<rparr>"
    and "fst (rank_stocks sample_heap [0, 1, 2]) 7 = sample_heap 7"
    unfolding case_prod_unfold by blast+
  moreover have "symbol (sample_heap 1) = ''BBB''"
    by (simp add: sample_heap_def sample_result_def analyze_stock_def Let_def)
  ultimately show ?thesis by auto
qed

text \<open>
  C9.  The returned list is in descending order of ranking score (ranking leaves the scores
  as they were), and results with the same score keep their input order.  When the list
  holds pairwise different dictionaries, as a batch of results does (one fresh dictionary
  per analysed ticker), the result at position \<open>i\<close>, counted from 0, carries rank \<open>i + 1\<close>:
  the ranks read \<open>1, 2, \<dots>, n\<close> down the list.
\<close>

theorem rank_stocks_contract:
  "(case rank_stocks h refs of (h', out) \<Rightarrow>
      (\<forall>i j. i \<le> j \<and> j < length out
          \<longrightarrow> ranking_score (h' (out ! j)) \<le> ranking_score (h' (out ! i)))
      \<and> (\<forall>r. ranking_score (h' r) = ranking_score (h r))
      \<and> (\<forall>s. filter (\<lambda>r. ranking_score (h r) = s) out
               = filter (\<lambda>r. ranking_score (h r) = s) refs)
      \<and> (distinct refs \<longrightarrow>
            (\<forall>i. i < length out \<longrightarrow> rank (h' (out ! i)) = Some (i + 1))
            \<and> map (\<lambda>r. rank (h' r)) out = map (\<lambda>i. Some (i + 1)) [0..<length refs]))"
proof -
  let ?key = "\<lambda>x. ranking_score (h x)"
  let ?out = "sorted_reverse ?key refs"
  let ?h = "assign_ranks h 0 ?out"
  have desc: "ranking_score (?h (?out ! j)) \<le> ranking_score (?h (?out ! i))"
    if "i \<le> j" "j < length ?out" for i j
  proof -
    have "sorted (rev (map ?key ?out))"
      by (rule sorted_reverse_descending)
    then have "map ?key ?out ! j \<le> map ?key ?out ! i"
      using that by (simp add: sorted_rev_iff_nth_mono)
    with that show ?thesis
      by (simp add: assign_ranks_score)
  qed
  have stable: "filter (\<lambda>r. ?key r = s) ?out = filter (\<lambda>r. ?key r = s) refs" for s
    by (rule sorted_reverse_stable)
  have ranks: "rank (?h (?out ! i)) = Some (i + 1)" if "distinct refs" "i < length ?out" for i
    using that assign_ranks_nth [of ?out i h 0] by (simp add: distinct_sorted_reverse)
  have all: "map (\<lambda>r. rank (?h r)) ?out = map (\<lambda>i. Some (i + 1)) [0..<length refs]"
    if "distinct refs"
    using ranks [OF that] by (intro nth_equalityI) (simp_all add: length_sorted_reverse)
  show ?thesis
    using desc stable ranks all
    by (simp add: rank_stocks_def Let_def assign_ranks_score)
qed


theorem rank_stocks_contract_witness:
  "snd (rank_stocks sample_heap [0, 1, 2]) = [1, 0, 2]
   \<and> map (\<lambda>r. rank (fst (rank_stocks sample_heap [0, 1, 2]) r)) [1, 0, 2]
       = [Some 1, Some 2, Some 3]"
proof -
  have out: "snd (rank_stocks sample_heap [0, 1, 2]) = [1, 0, 2]"
    by (simp add: rank_stocks_def sorted_reverse_def sample_heap_def sample_result_def Let_def)
  have "distinct [0::nat, 1, 2]"
    by simp
  with rank_stocks_contract [where h = sample_heap and refs = "[0, 1, 2]"]
  have "map (\<lambda>r. rank (fst (rank_stocks sample_heap [0, 1, 2]) r))
          (snd (rank_stocks sample_heap [0, 1, 2]))
        = map (\<lambda>i. Some (i + 1)) [0..<length [0::nat, 1, 2]]"
    unfolding case_prod_unfold by blast
  also have "[0..<length [0::nat, 1, 2]] = [0, 1, 2]"
    by (simp add: upt_rec)
  finally show ?thesis
    using out by simp
qed

end
